theory Spec2Isabelle
  imports Complex_Main
begin

section \<open>Values exchanged with the Python runtime\<close>

text \<open>
  The analyzer of \<^verbatim>\<open>gemini_analyzer.py\<close> works on three kinds of data: the text
  returned by the remote model, the document \<^verbatim>\<open>json.loads\<close> decodes from it, and the
  video dictionaries handed in by the caller.

  A Python \<^verbatim>\<open>float\<close> is either a finite number, an infinity or NaN. A finite
  float is represented by the real number it denotes; the rounding of IEEE arithmetic
  is not part of the model.
\<close>

datatype pyfloat = Finite real | PosInf | NegInf | NaN

text \<open>
  A decoded JSON document. An object is an association list; \<^verbatim>\<open>json.loads\<close> keeps
  one binding per key, looked up with \<open>map_of\<close>.
\<close>

datatype json =
    JNull
  | JBool bool
  | JInt int
  | JFloat pyfloat
  | JStr string
  | JArr "json list"
  | JObj "(string \<times> json) list"

text \<open>The exceptions that the modelled code can meet.\<close>

datatype error =
    JSONDecodeError
  | TypeError
  | KeyError
  | ValueError
  | AttributeError
  | IndexError
  | OverflowError
  | RecursionError
  | RemoteError

text \<open>
  The two library functions whose result depends on text: \<^verbatim>\<open>json.loads\<close> and
  \<^verbatim>\<open>float\<close> applied to a \<^verbatim>\<open>str\<close>. They belong to the Python standard library, not to
  the repository, so the analyzer takes them as a parameter. A concrete instance,
  \<open>python_lib\<close>, is defined further down and used wherever a result is computed on
  a concrete text.
\<close>

record pylib =
  json_loads :: "string \<Rightarrow> error + json"
  float_of_str :: "string \<Rightarrow> error + pyfloat"

section \<open>Candidate videos and scored results\<close>

text \<open>
  A video is the dictionary built by \<^verbatim>\<open>script.py\<close>: \<^verbatim>\<open>title\<close> and
  \<^verbatim>\<open>views_formatted\<close> are strings, \<^verbatim>\<open>views\<close> is an \<^verbatim>\<open>int\<close> and \<^verbatim>\<open>like_ratio\<close> a
  number. These four keys are read by the analyzer and are typed fields here; all
  other keys of the dictionary are kept, in order, in \<open>passthrough\<close>.
\<close>

record video =
  title :: string
  like_ratio :: real
  views :: int
  views_formatted :: string
  passthrough :: "(string \<times> json) list"

text \<open>
  A result is \<^verbatim>\<open>{**video, "gemini_score": .., "gemini_analysis": ..,
  "composite_score": .., "like_ratio_contribution": .., "views_contribution": ..}\<close>:
  every key of the video, and the five computed keys. A key of the video that has the
  name of a computed key is overwritten by the dictionary display, so it does not
  survive among the passthrough keys of the result.
\<close>

record scored = video +
  gemini_score :: real
  gemini_analysis :: json
  composite_score :: real
  like_ratio_contribution :: real
  views_contribution :: real

definition computed_keys :: "string list" where
  "computed_keys = [''gemini_score'', ''gemini_analysis'', ''composite_score'',
                    ''like_ratio_contribution'', ''views_contribution'']"

definition merge_result :: "video \<Rightarrow> real \<Rightarrow> json \<Rightarrow> real \<Rightarrow> real \<Rightarrow> real \<Rightarrow> scored" where
  "merge_result v g a c lc vc =
     \<lparr> title = title v, like_ratio = like_ratio v, views = views v,
       views_formatted = views_formatted v,
       passthrough = filter (\<lambda>kv. fst kv \<notin> set computed_keys) (passthrough v),
       gemini_score = g, gemini_analysis = a, composite_score = c,
       like_ratio_contribution = lc, views_contribution = vc \<rparr>"

section \<open>Numbers\<close>

text \<open>
  \<^verbatim>\<open>round(x, 2)\<close>: Python rounds to the nearest multiple of 0.01 and, on a tie, to
  the even one.
\<close>

definition round_half_even :: "real \<Rightarrow> int" where
  "round_half_even y =
     (let f = \<lfloor>y\<rfloor>; d = y - of_int f
      in if d < 1 / 2 then f
         else if 1 / 2 < d then f + 1
         else if even f then f else f + 1)"

definition round2 :: "real \<Rightarrow> real" where
  "round2 x = of_int (round_half_even (x * 100)) / 100"

text \<open>The \<^verbatim>\<open>WEIGHTS\<close> table and \<^verbatim>\<open>MAX_RETRIES\<close> of \<^verbatim>\<open>__init__\<close>.\<close>

definition w_gemini_score :: real where "w_gemini_score = 6 / 10"
definition w_like_ratio :: real where "w_like_ratio = 2 / 10"
definition w_views :: real where "w_views = 2 / 10"
definition MAX_RETRIES :: nat where "MAX_RETRIES = 3"

text \<open>
  \<^verbatim>\<open>float(raw_score)\<close>. \<^verbatim>\<open>None\<close>, lists and dictionaries raise \<^verbatim>\<open>TypeError\<close>; a
  \<^verbatim>\<open>bool\<close> is the integer 0 or 1; an \<^verbatim>\<open>int\<close> too large for a double raises
  \<^verbatim>\<open>OverflowError\<close> (from \<open>2^1024 - 2^970\<close> on, the first integer that rounds to
  \<open>2^1024\<close>); a string is parsed by the library.
\<close>

definition float_of_int :: "int \<Rightarrow> error + pyfloat" where
  "float_of_int n =
     (if 2 ^ 1024 - 2 ^ 970 \<le> \<bar>n\<bar> then Inl OverflowError else Inr (Finite (of_int n)))"

fun py_float :: "pylib \<Rightarrow> json \<Rightarrow> error + pyfloat" where
  "py_float L JNull = Inl TypeError"
| "py_float L (JBool b) = Inr (Finite (if b then 1 else 0))"
| "py_float L (JInt n) = float_of_int n"
| "py_float L (JFloat f) = Inr f"
| "py_float L (JStr s) = float_of_str L s"
| "py_float L (JArr xs) = Inl TypeError"
| "py_float L (JObj d) = Inl TypeError"

text \<open>
  \<^verbatim>\<open>max(0, min(100, f))\<close>. Python's \<^verbatim>\<open>min(a, b)\<close> returns \<^verbatim>\<open>b\<close> only when
  \<^verbatim>\<open>b < a\<close>, and \<^verbatim>\<open>max(a, b)\<close> returns \<^verbatim>\<open>b\<close> only when \<^verbatim>\<open>b > a\<close>; every comparison
  with NaN is false. So \<^verbatim>\<open>min(100, nan)\<close> is 100, \<^verbatim>\<open>min(100, inf)\<close> is 100 and
  \<^verbatim>\<open>max(0, -inf)\<close> is 0: the result is always a finite number.
\<close>

fun clamp_0_100 :: "pyfloat \<Rightarrow> real" where
  "clamp_0_100 (Finite x) = (if x < 100 then (if 0 < x then x else 0) else 100)"
| "clamp_0_100 PosInf = 100"
| "clamp_0_100 NegInf = 0"
| "clamp_0_100 NaN = 100"

definition normalize_score :: "pylib \<Rightarrow> json \<Rightarrow> real" where
  "normalize_score L raw_score =
     (case py_float L raw_score of
        Inr f \<Rightarrow> clamp_0_100 f
      | Inl e \<Rightarrow> 50)"

section \<open>Fallback and scoring\<close>

text \<open>\<^verbatim>\<open>max(v['views'] for v in videos) if videos else 1\<close>.\<close>

definition max_views_of :: "video list \<Rightarrow> int" where
  "max_views_of videos = (if videos = [] then 1 else Max (set (map views videos)))"

text \<open>\<^verbatim>\<open>(views / max_views * 100) if max_views > 0 else 0\<close>.\<close>

definition normalized_views :: "int \<Rightarrow> int \<Rightarrow> real" where
  "normalized_views max_views n =
     (if 0 < max_views then of_int n / of_int max_views * 100 else 0)"

definition fallback_entry :: "int \<Rightarrow> video \<Rightarrow> scored" where
  "fallback_entry max_views v =
     merge_result v 50 (JStr ''Could not analyze content'')
       (round2 (w_gemini_score * 50 + w_like_ratio * like_ratio v
                + w_views * normalized_views max_views (views v)))
       (round2 (w_like_ratio * like_ratio v))
       (round2 (w_views * normalized_views max_views (views v)))"

definition create_fallback :: "video list \<Rightarrow> scored list" where
  "create_fallback videos = map (fallback_entry (max_views_of videos)) videos"

text \<open>
  \<^verbatim>\<open>item.get(key)\<close> and \<^verbatim>\<open>item.get(key, default)\<close> on a decoded entry. Only a
  dictionary has \<^verbatim>\<open>get\<close>; on every other value the attribute access raises.
\<close>

fun dict_get :: "json \<Rightarrow> string \<Rightarrow> json \<Rightarrow> error + json" where
  "dict_get (JObj d) k dflt = Inr (case map_of d k of Some v \<Rightarrow> v | None \<Rightarrow> dflt)"
| "dict_get _ k dflt = Inl AttributeError"

text \<open>
  \<^verbatim>\<open>isinstance(index, int)\<close> holds for an \<^verbatim>\<open>int\<close> and, \<^verbatim>\<open>bool\<close> being a subclass of
  \<^verbatim>\<open>int\<close>, for \<^verbatim>\<open>True\<close> (1) and \<^verbatim>\<open>False\<close> (0).
\<close>

fun as_int :: "json \<Rightarrow> int option" where
  "as_int (JInt n) = Some n"
| "as_int (JBool b) = Some (if b then 1 else 0)"
| "as_int _ = None"

text \<open>\<^verbatim>\<open>videos[index]\<close>: a negative index counts from the end of the list.\<close>

definition subscript :: "'a list \<Rightarrow> int \<Rightarrow> error + 'a" where
  "subscript xs i =
     (if 0 \<le> i
      then (if i < int (length xs) then Inr (xs ! nat i) else Inl IndexError)
      else (if - int (length xs) \<le> i then Inr (xs ! nat (int (length xs) + i))
            else Inl IndexError))"

text \<open>The body of the loop of \<^verbatim>\<open>_format_results\<close>, up to \<^verbatim>\<open>results.append\<close>.\<close>

definition score_entry :: "pylib \<Rightarrow> video list \<Rightarrow> int \<Rightarrow> json \<Rightarrow> error + scored" where
  "score_entry L videos max_views item =
     (case dict_get item ''index'' JNull of
        Inl e \<Rightarrow> Inl e
      | Inr index \<Rightarrow>
          (case as_int index of
             None \<Rightarrow> Inl ValueError
           | Some i \<Rightarrow>
               if int (length videos) \<le> i then Inl ValueError
               else
                 (case subscript videos i of
                    Inl e \<Rightarrow> Inl e
                  | Inr v \<Rightarrow>
                      (case dict_get item ''score'' JNull of
                         Inl e \<Rightarrow> Inl e
                       | Inr raw \<Rightarrow>
                           (case dict_get item ''rationale'' (JStr ''No rationale provided'') of
                              Inl e \<Rightarrow> Inl e
                            | Inr rationale \<Rightarrow>
                                (let g = normalize_score L raw;
                                     nv = normalized_views max_views (views v);
                                     c = w_gemini_score * g + w_like_ratio * like_ratio v
                                         + w_views * nv
                                 in Inr (merge_result v g rationale (round2 c)
                                           (round2 (w_like_ratio * like_ratio v))
                                           (round2 (w_views * nv)))))))))"

text \<open>
  The loop itself: an entry whose body raises is skipped
  (\<^verbatim>\<open>except Exception: continue\<close>), every other entry appends its result.
\<close>

fun collect_results :: "pylib \<Rightarrow> video list \<Rightarrow> int \<Rightarrow> json list \<Rightarrow> scored list" where
  "collect_results L videos max_views [] = []"
| "collect_results L videos max_views (item # items) =
     (case score_entry L videos max_views item of
        Inl e \<Rightarrow> collect_results L videos max_views items
      | Inr r \<Rightarrow> r # collect_results L videos max_views items)"

text \<open>
  \<^verbatim>\<open>sorted(results, key=lambda x: x["composite_score"], reverse=True)\<close>: a stable
  sort into descending order of the key.
\<close>

definition sorted_reverse :: "('a \<Rightarrow> real) \<Rightarrow> 'a list \<Rightarrow> 'a list" where
  "sorted_reverse key xs = sort_key (\<lambda>x. - key x) xs"

text \<open>
  \<^verbatim>\<open>"analysis" in data\<close>. A dictionary is asked for the key, a list for an element
  equal to the string, a string for the substring; any other value is not a container
  and the test raises \<^verbatim>\<open>TypeError\<close>.
\<close>

fun is_substring :: "string \<Rightarrow> string \<Rightarrow> bool" where
  "is_substring p [] = (p = [])"
| "is_substring p (c # cs) = (take (length p) (c # cs) = p \<or> is_substring p cs)"

fun contains_analysis :: "json \<Rightarrow> error + bool" where
  "contains_analysis (JObj d) = Inr (map_of d ''analysis'' \<noteq> None)"
| "contains_analysis (JArr xs) = Inr (JStr ''analysis'' \<in> set xs)"
| "contains_analysis (JStr s) = Inr (is_substring ''analysis'' s)"
| "contains_analysis _ = Inl TypeError"

text \<open>
  \<^verbatim>\<open>data["analysis"]\<close>, evaluated only after the membership test has succeeded: a
  list or a string cannot be subscripted by a string.
\<close>

fun get_analysis :: "json \<Rightarrow> error + json" where
  "get_analysis (JObj d) = (case map_of d ''analysis'' of Some a \<Rightarrow> Inr a | None \<Rightarrow> Inl KeyError)"
| "get_analysis _ = Inl TypeError"

definition format_results :: "pylib \<Rightarrow> video list \<Rightarrow> json \<Rightarrow> error + scored list" where
  "format_results L videos data =
     (case contains_analysis data of
        Inl e \<Rightarrow> Inl e
      | Inr False \<Rightarrow> Inr (create_fallback videos)
      | Inr True \<Rightarrow>
          (case get_analysis data of
             Inl e \<Rightarrow> Inl e
           | Inr (JArr items) \<Rightarrow>
               (let results = collect_results L videos (max_views_of videos) items;
                    ranked = sorted_reverse composite_score results
                in Inr (if ranked = [] then create_fallback videos else ranked))
           | Inr _ \<Rightarrow> Inr (create_fallback videos)))"

section \<open>Text operations of the parsing cascade\<close>

text \<open>
  A text is a list of characters. The characters of the model are the code points
  below 256; on these, \<^verbatim>\<open>str.isspace\<close> and the class \<^verbatim>\<open>\s\<close> of a pattern hold for the
  code points 9 to 13, 28 to 32, 133 and 160, and \<^verbatim>\<open>\d\<close> holds for the ten digits.
\<close>

definition dquote :: char where "dquote = CHR 0x22"
definition squote :: char where "squote = CHR 0x27"
definition newline :: char where "newline = CHR 0x0A"
definition backslash :: char where "backslash = CHR 0x5C"
definition backtick :: char where "backtick = CHR 0x60"

definition is_space :: "char \<Rightarrow> bool" where
  "is_space c = (let n = (of_char c :: nat)
                 in (9 \<le> n \<and> n \<le> 13) \<or> (28 \<le> n \<and> n \<le> 32) \<or> n = 133 \<or> n = 160)"

definition is_digit :: "char \<Rightarrow> bool" where
  "is_digit c = (let n = (of_char c :: nat) in 48 \<le> n \<and> n \<le> 57)"

text \<open>\<^verbatim>\<open>text.strip()\<close>.\<close>

definition py_strip :: "string \<Rightarrow> string" where
  "py_strip s = rev (dropWhile is_space (rev (dropWhile is_space s)))"

text \<open>
  \<^verbatim>\<open>re.search(r'```json\n(.*?)\n```', text, re.DOTALL)\<close>: the text between the first
  opening fence and the first closing fence after it. \<open>None\<close> stands for the failed
  search, on which \<^verbatim>\<open>.group(1)\<close> raises \<^verbatim>\<open>AttributeError\<close>.
\<close>

fun after_first :: "string \<Rightarrow> string \<Rightarrow> string option" where
  "after_first p [] = (if p = [] then Some [] else None)"
| "after_first p (c # cs) =
     (if take (length p) (c # cs) = p then Some (drop (length p) (c # cs))
      else after_first p cs)"

fun before_first :: "string \<Rightarrow> string \<Rightarrow> string option" where
  "before_first p [] = (if p = [] then Some [] else None)"
| "before_first p (c # cs) =
     (if take (length p) (c # cs) = p then Some []
      else map_option ((#) c) (before_first p cs))"

definition fence_open :: string where
  "fence_open = [backtick, backtick, backtick] @ ''json'' @ [newline]"

definition fence_close :: string where
  "fence_close = [newline, backtick, backtick, backtick]"

definition search_fenced :: "string \<Rightarrow> string option" where
  "search_fenced text =
     (case after_first fence_open text of
        None \<Rightarrow> None
      | Some rest \<Rightarrow> before_first fence_close rest)"

text \<open>\<^verbatim>\<open>text.replace("'", '"')\<close>.\<close>

definition fix_quotes :: "string \<Rightarrow> string" where
  "fix_quotes text = map (\<lambda>c. if c = squote then dquote else c) text"

text \<open>
  \<^verbatim>\<open>re.sub(r'//.*?\n', '', text)\<close>: from each \<^verbatim>\<open>//\<close> up to and including the next
  newline. Without a newline after it, \<^verbatim>\<open>//\<close> starts no match, and neither does
  anything behind it.
\<close>

fun skip_line :: "string \<Rightarrow> string" where
  "skip_line [] = []"
| "skip_line (c # cs) = (if c = newline then cs else skip_line cs)"

lemma length_skip_line: "length (skip_line cs) \<le> length cs"
  by (induction cs) auto

function strip_comments :: "string \<Rightarrow> string" where
  "strip_comments [] = []"
| "strip_comments [a] = [a]"
| "strip_comments (a # b # cs) =
     (if a = CHR ''/'' \<and> b = CHR ''/'' \<and> newline \<in> set cs
      then strip_comments (skip_line cs)
      else a # strip_comments (b # cs))"
  by pat_completeness auto
termination
  by (relation "measure length") (auto simp: length_skip_line le_imp_less_Suc less_SucI)

text \<open>
  \<^verbatim>\<open>re.sub(r',\s*}', '}', text)\<close> and \<^verbatim>\<open>re.sub(r',\s*]', ']', text)\<close>: a comma, the
  white space after it and the closing character become the closing character alone.
\<close>

definition closes :: "char \<Rightarrow> string \<Rightarrow> bool" where
  "closes k cs = (case dropWhile is_space cs of [] \<Rightarrow> False | d # ds \<Rightarrow> d = k)"

function drop_trailing_commas :: "char \<Rightarrow> string \<Rightarrow> string" where
  "drop_trailing_commas k [] = []"
| "drop_trailing_commas k (c # cs) =
     (if c = CHR '','' \<and> closes k cs
      then k # drop_trailing_commas k (tl (dropWhile is_space cs))
      else c # drop_trailing_commas k cs)"
  by pat_completeness auto
termination
proof (relation "measure (\<lambda>(k, s). length s)")
  show "wf (measure (\<lambda>(k, s). length s))" by simp
next
  fix k :: char and c :: char and cs :: string
  assume "c = CHR '','' \<and> closes k cs"
  have "length (dropWhile is_space cs) \<le> length cs"
    by (rule length_dropWhile_le)
  then show "((k, tl (dropWhile is_space cs)), (k, c # cs)) \<in> measure (\<lambda>(k, s). length s)"
    by simp
next
  fix k :: char and c :: char and cs :: string
  show "((k, cs), (k, c # cs)) \<in> measure (\<lambda>(k, s). length s)"
    by simp
qed

text \<open>
  \<^verbatim>\<open>text.find('{')\<close> and \<^verbatim>\<open>text.rfind('}')\<close>, both -1 when the character is absent,
  and the slice \<^verbatim>\<open>text[start:end]\<close> for bounds that are not negative.
\<close>

definition py_find :: "char \<Rightarrow> string \<Rightarrow> int" where
  "py_find c s = (if c \<in> set s then int (length (takeWhile (\<lambda>x. x \<noteq> c) s)) else - 1)"

definition py_rfind :: "char \<Rightarrow> string \<Rightarrow> int" where
  "py_rfind c s =
     (if c \<in> set s then int (length s) - 1 - int (length (takeWhile (\<lambda>x. x \<noteq> c) (rev s)))
      else - 1)"

definition py_slice :: "string \<Rightarrow> int \<Rightarrow> int \<Rightarrow> string" where
  "py_slice s start end = take (nat end - nat start) (drop (nat start) s)"

text \<open>
  \<^verbatim>\<open>re.findall(r'\{[^}]*"index"\s*:\s*\d+[^}]*\}', text)\<close>: a match starts at an opening
  brace and ends at the first closing brace behind it, and the text between the two
  holds \<^verbatim>\<open>"index"\<close>, a colon and a digit, with optional white space around the colon.
  The search resumes behind the closing brace of a match.
\<close>

definition index_key_at :: "string \<Rightarrow> bool" where
  "index_key_at s =
     (take 7 s = [dquote] @ ''index'' @ [dquote] \<and>
      (case dropWhile is_space (drop 7 s) of
         [] \<Rightarrow> False
       | c # r \<Rightarrow> c = CHR '':'' \<and>
           (case dropWhile is_space r of [] \<Rightarrow> False | d # ds \<Rightarrow> is_digit d)))"

fun has_index_key :: "string \<Rightarrow> bool" where
  "has_index_key [] = False"
| "has_index_key (c # cs) = (index_key_at (c # cs) \<or> has_index_key cs)"

function find_entries :: "string \<Rightarrow> string list" where
  "find_entries [] = []"
| "find_entries (c # cs) =
     (if c = CHR ''{'' \<and> CHR ''}'' \<in> set cs
         \<and> has_index_key (takeWhile (\<lambda>x. x \<noteq> CHR ''}'') cs)
      then (c # takeWhile (\<lambda>x. x \<noteq> CHR ''}'') cs @ ''}'')
           # find_entries (tl (dropWhile (\<lambda>x. x \<noteq> CHR ''}'') cs))
      else find_entries cs)"
  by pat_completeness auto
termination
proof (relation "measure length")
  show "wf (measure length)" by simp
next
  fix c :: char and cs :: string
  have "length (dropWhile (\<lambda>x. x \<noteq> CHR ''}'') cs) \<le> length cs"
    by (rule length_dropWhile_le)
  then show "(tl (dropWhile (\<lambda>x. x \<noteq> CHR ''}'') cs), c # cs) \<in> measure length"
    by simp
next
  fix c :: char and cs :: string
  show "(cs, c # cs) \<in> measure length" by simp
qed

section \<open>The parsing cascade\<close>

text \<open>
  \<^verbatim>\<open>data = json.loads(s); return self._format_results(videos, data)\<close>, the two
  statements inside the \<^verbatim>\<open>try\<close> of the first three strategies. Writing to the log file
  has no part in the result and is left out.
\<close>

definition decode_and_format :: "pylib \<Rightarrow> video list \<Rightarrow> string \<Rightarrow> error + scored list" where
  "decode_and_format L videos s =
     (case json_loads L s of
        Inl e \<Rightarrow> Inl e
      | Inr data \<Rightarrow> format_results L videos data)"

text \<open>
  Strategy 4. The inner \<^verbatim>\<open>try\<close> skips a fragment that does not decode; any other
  exception leaves the loop and is caught by the outer \<^verbatim>\<open>except Exception\<close>, which
  falls through to the fallback, as an empty list of fragments does.
\<close>

fun decode_fragments :: "pylib \<Rightarrow> string list \<Rightarrow> error + json list" where
  "decode_fragments L [] = Inr []"
| "decode_fragments L (m # ms) =
     (case json_loads L m of
        Inl e \<Rightarrow> if e = JSONDecodeError then decode_fragments L ms else Inl e
      | Inr v \<Rightarrow>
          (case decode_fragments L ms of
             Inl e \<Rightarrow> Inl e
           | Inr vs \<Rightarrow> Inr (v # vs)))"

definition partial_recovery :: "pylib \<Rightarrow> video list \<Rightarrow> string \<Rightarrow> scored list" where
  "partial_recovery L videos text =
     (case decode_fragments L (find_entries text) of
        Inl e \<Rightarrow> create_fallback videos
      | Inr analysis \<Rightarrow>
          if analysis \<noteq> []
          then (case format_results L videos (JObj [(''analysis'', JArr analysis)]) of
                  Inl e \<Rightarrow> create_fallback videos
                | Inr results \<Rightarrow> results)
          else create_fallback videos)"

text \<open>
  Strategy 3 assigns the repaired text to \<^verbatim>\<open>text\<close>, so strategy 4 searches the
  repaired text. \<^verbatim>\<open>end\<close> is \<^verbatim>\<open>rfind + 1\<close>, which is 0 and not -1 when there is no
  closing brace.
\<close>

definition repair :: "string \<Rightarrow> string" where
  "repair text =
     drop_trailing_commas (CHR '']'')
       (drop_trailing_commas (CHR ''}'') (strip_comments (fix_quotes text)))"

definition heuristic_repair :: "pylib \<Rightarrow> video list \<Rightarrow> string \<Rightarrow> error + scored list" where
  "heuristic_repair L videos text0 =
     (let text = repair text0;
          start = py_find (CHR ''{'') text;
          end = py_rfind (CHR ''}'') text + 1
      in if start \<noteq> - 1 \<and> end \<noteq> - 1
         then (case decode_and_format L videos (py_slice text start end) of
                 Inr results \<Rightarrow> Inr results
               | Inl e \<Rightarrow>
                   if e = JSONDecodeError then Inr (partial_recovery L videos text)
                   else Inl e)
         else Inr (partial_recovery L videos text))"

text \<open>Strategy 2: a failed search and a failed decoding both lead to strategy 3.\<close>

definition markdown_extract :: "pylib \<Rightarrow> video list \<Rightarrow> string \<Rightarrow> error + scored list" where
  "markdown_extract L videos text =
     (case (case search_fenced text of
              None \<Rightarrow> Inl AttributeError
            | Some json_str \<Rightarrow> decode_and_format L videos json_str) of
        Inr results \<Rightarrow> Inr results
      | Inl e \<Rightarrow>
          if e = AttributeError \<or> e = JSONDecodeError then heuristic_repair L videos text
          else Inl e)"

text \<open>\<^verbatim>\<open>_process_response\<close>, starting with strategy 1.\<close>

definition process_response :: "pylib \<Rightarrow> video list \<Rightarrow> string \<Rightarrow> error + scored list" where
  "process_response L videos text =
     (case decode_and_format L videos (py_strip text) of
        Inr results \<Rightarrow> Inr results
      | Inl e \<Rightarrow>
          if e = JSONDecodeError then markdown_extract L videos text
          else Inl e)"

section \<open>The analyzer and its retry loop\<close>

text \<open>
  The state of a \<^verbatim>\<open>GeminiAnalyzer\<close> that matters to a call: whether it is configured,
  how many times \<^verbatim>\<open>generate_content\<close> has been called, and the back-off pauses taken,
  in seconds, latest first. The clock of \<^verbatim>\<open>_enforce_rate_limit\<close> is left out.

  The remote model is outside the program: \<open>remote k\<close> is the outcome of call number
  \<open>k\<close> over the life of the analyzer (counted from 0), either the text of the
  response or the exception raised by \<^verbatim>\<open>generate_content\<close> or \<^verbatim>\<open>response.text\<close>.
  \<open>api_key\<close> is the value of \<^verbatim>\<open>os.getenv("GEMINI_API_KEY")\<close>.
\<close>

record analyzer =
  configured :: bool
  remote_calls :: nat
  sleeps :: "nat list"

definition configure :: "string option \<Rightarrow> analyzer \<Rightarrow> error + analyzer" where
  "configure api_key st =
     (case api_key of
        None \<Rightarrow> Inl ValueError
      | Some k \<Rightarrow> if k = [] then Inl ValueError else Inr (st\<lparr>configured := True\<rparr>))"

text \<open>
  \<^verbatim>\<open>for attempt in range(self.MAX_RETRIES)\<close>. An exception of the remote call or of
  \<^verbatim>\<open>_process_response\<close> is caught: before the last attempt the loop sleeps
  \<^verbatim>\<open>2 ** attempt\<close> seconds and goes on, at the last attempt it returns the fallback.
  A loop that ends without returning makes the method return \<^verbatim>\<open>None\<close>.
\<close>

function retry_loop ::
  "pylib \<Rightarrow> (nat \<Rightarrow> error + string) \<Rightarrow> video list \<Rightarrow> nat \<Rightarrow> analyzer
     \<Rightarrow> scored list option \<times> analyzer" where
  "retry_loop L remote videos attempt st =
     (if attempt < MAX_RETRIES
      then
        (let st1 = st\<lparr>remote_calls := Suc (remote_calls st)\<rparr>
         in case (case remote (remote_calls st) of
                    Inl e \<Rightarrow> Inl e
                  | Inr text \<Rightarrow> process_response L videos text) of
              Inr results \<Rightarrow> (Some results, st1)
            | Inl e \<Rightarrow>
                if attempt < MAX_RETRIES - 1
                then retry_loop L remote videos (Suc attempt)
                       (st1\<lparr>sleeps := 2 ^ attempt # sleeps st1\<rparr>)
                else (Some (create_fallback videos), st1))
      else (None, st))"
  by pat_completeness auto
termination
  by (relation "measure (\<lambda>(L, remote, videos, attempt, st). MAX_RETRIES - attempt)") auto

text \<open>
  \<^verbatim>\<open>analyze_videos\<close>. The prompt is the same at every attempt of a call and only the
  remote model reads it, so it is not built here; building it cannot fail on a video
  with the four typed keys.
\<close>

definition analyze_videos ::
  "pylib \<Rightarrow> string option \<Rightarrow> (nat \<Rightarrow> error + string) \<Rightarrow> video list \<Rightarrow> string \<Rightarrow> analyzer
     \<Rightarrow> (error + scored list option) \<times> analyzer" where
  "analyze_videos L api_key remote videos query st =
     (case (if \<not> configured st then configure api_key st else Inr st) of
        Inl e \<Rightarrow> (Inl e, st)
      | Inr st1 \<Rightarrow>
          if videos = [] then (Inr (Some []), st1)
          else (case retry_loop L remote videos 0 st1 of
                  (result, st2) \<Rightarrow> (Inr result, st2)))"

section \<open>The library functions on concrete text\<close>

text \<open>
  A decoder for the texts on which results are computed below. It follows the
  grammar of \<^verbatim>\<open>json.loads\<close> with its default settings: white space is blank, tab,
  newline and carriage return; a number without fraction and exponent is an
  \<^verbatim>\<open>int\<close>, any other number a \<^verbatim>\<open>float\<close>; \<^verbatim>\<open>NaN\<close>, \<^verbatim>\<open>Infinity\<close> and \<^verbatim>\<open>-Infinity\<close>
  are accepted; a control character inside a string is an error; of two bindings of
  one key the later one stays. A number whose magnitude reaches \<open>2^1024 - 2^970\<close>
  becomes an infinity. A \<^verbatim>\<open>\u\<close> escape is decoded when it names a code point below 256
  and rejected otherwise, the characters of the model ending there.
\<close>

definition json_ws :: "char \<Rightarrow> bool" where
  "json_ws c = (c = CHR '' '' \<or> c = CHR 0x09 \<or> c = CHR 0x0A \<or> c = CHR 0x0D)"

definition digits_value :: "string \<Rightarrow> nat" where
  "digits_value ds = foldl (\<lambda>a c. 10 * a + (of_char c - 48)) 0 ds"

definition float_of_real :: "real \<Rightarrow> pyfloat" where
  "float_of_real x =
     (if 2 ^ 1024 - 2 ^ 970 \<le> x then PosInf
      else if x \<le> - (2 ^ 1024 - 2 ^ 970) then NegInf
      else Finite x)"

definition scale10 :: "real \<Rightarrow> int \<Rightarrow> real" where
  "scale10 x e = (if 0 \<le> e then x * 10 ^ nat e else x / 10 ^ nat (- e))"

definition decimal_value :: "bool \<Rightarrow> string \<Rightarrow> string \<Rightarrow> int \<Rightarrow> pyfloat" where
  "decimal_value neg ip fp e =
     (let m = real (digits_value ip) + real (digits_value fp) / 10 ^ length fp;
          x = scale10 m e
      in float_of_real (if neg then - x else x))"

text \<open>The exponent \<^verbatim>\<open>[eE][-+]?[0-9]+\<close>, when the text starts with one.\<close>

definition exponent_part :: "string \<Rightarrow> (int \<times> string) option" where
  "exponent_part s =
     (case s of
        [] \<Rightarrow> None
      | c # r \<Rightarrow>
          if c = CHR ''e'' \<or> c = CHR ''E''
          then (let neg = (case r of [] \<Rightarrow> False | g # r1 \<Rightarrow> g = CHR ''-'');
                    r2 = (case r of [] \<Rightarrow> r
                          | g # r1 \<Rightarrow> if g = CHR ''-'' \<or> g = CHR ''+'' then r1 else r);
                    ds = takeWhile is_digit r2
                in if ds = [] then None
                   else Some ((if neg then - int (digits_value ds) else int (digits_value ds)),
                              dropWhile is_digit r2))
          else None)"

text \<open>
  The number pattern \<^verbatim>\<open>(-?(?:0|[1-9][0-9]*))(\.[0-9]+)?([eE][-+]?[0-9]+)?\<close> of the
  scanner, matched at the start of the text.
\<close>

definition parse_number :: "string \<Rightarrow> (json \<times> string) option" where
  "parse_number s =
     (let neg = (case s of [] \<Rightarrow> False | c # r \<Rightarrow> c = CHR ''-'');
          s1 = (if neg then tl s else s)
      in case s1 of
           [] \<Rightarrow> None
         | c # r \<Rightarrow>
             if \<not> is_digit c then None
             else
               (let ip = (if c = CHR ''0'' then [c] else takeWhile is_digit s1);
                    s2 = drop (length ip) s1;
                    has_frac = (case s2 of
                                  d # e # r2 \<Rightarrow> d = CHR ''.'' \<and> is_digit e
                                | _ \<Rightarrow> False);
                    fp = (if has_frac then takeWhile is_digit (tl s2) else []);
                    s3 = (if has_frac then dropWhile is_digit (tl s2) else s2)
                in case exponent_part s3 of
                     Some (e, s4) \<Rightarrow> Some (JFloat (decimal_value neg ip fp e), s4)
                   | None \<Rightarrow>
                       if has_frac then Some (JFloat (decimal_value neg ip fp 0), s3)
                       else Some (JInt (if neg then - int (digits_value ip)
                                        else int (digits_value ip)), s3)))"

text \<open>The body of a string, behind its opening quote.\<close>

definition hex_digit :: "char \<Rightarrow> nat option" where
  "hex_digit c =
     (let n = (of_char c :: nat)
      in if 48 \<le> n \<and> n \<le> 57 then Some (n - 48)
         else if 65 \<le> n \<and> n \<le> 70 then Some (n - 55)
         else if 97 \<le> n \<and> n \<le> 102 then Some (n - 87)
         else None)"

fun hex_value :: "string \<Rightarrow> nat \<Rightarrow> nat option" where
  "hex_value [] acc = Some acc"
| "hex_value (c # cs) acc =
     (case hex_digit c of None \<Rightarrow> None | Some d \<Rightarrow> hex_value cs (16 * acc + d))"

definition unescape :: "char \<Rightarrow> char option" where
  "unescape e =
     (if e = dquote then Some dquote
      else if e = backslash then Some backslash
      else if e = CHR ''/'' then Some (CHR ''/'')
      else if e = CHR ''b'' then Some (CHR 0x08)
      else if e = CHR ''f'' then Some (CHR 0x0C)
      else if e = CHR ''n'' then Some (CHR 0x0A)
      else if e = CHR ''r'' then Some (CHR 0x0D)
      else if e = CHR ''t'' then Some (CHR 0x09)
      else None)"

definition cons_char :: "char \<Rightarrow> (string \<times> string) option \<Rightarrow> (string \<times> string) option" where
  "cons_char c r = (case r of None \<Rightarrow> None | Some (str, rest) \<Rightarrow> Some (c # str, rest))"

function parse_string :: "string \<Rightarrow> (string \<times> string) option" where
  "parse_string [] = None"
| "parse_string (c # cs) =
     (if c = dquote then Some ([], cs)
      else if c = backslash then
        (case cs of
           [] \<Rightarrow> None
         | e # r \<Rightarrow>
             if e = CHR ''u'' then
               (if length r < 4 then None
                else case hex_value (take 4 r) 0 of
                       None \<Rightarrow> None
                     | Some n \<Rightarrow>
                         if n < 256 then cons_char (char_of n) (parse_string (drop 4 r))
                         else None)
             else (case unescape e of
                     None \<Rightarrow> None
                   | Some ch \<Rightarrow> cons_char ch (parse_string r)))
      else if (of_char c :: nat) < 32 then None
      else cons_char c (parse_string cs))"
  by pat_completeness auto
termination
  by (relation "measure length") auto

text \<open>
  Values, the elements of an array and the members of an object. The first argument
  bounds the number of nested calls; \<open>loads\<close> gives it a value that no text exhausts.
\<close>

definition add_member :: "string \<Rightarrow> json \<Rightarrow> (string \<times> json) list \<Rightarrow> (string \<times> json) list" where
  "add_member k v ms = (if map_of ms k = None then (k, v) # ms else ms)"

fun parse_value :: "nat \<Rightarrow> string \<Rightarrow> error + (json \<times> string)"
  and parse_elements :: "nat \<Rightarrow> string \<Rightarrow> error + (json list \<times> string)"
  and parse_members :: "nat \<Rightarrow> string \<Rightarrow> error + ((string \<times> json) list \<times> string)" where
  "parse_value 0 s = Inl RecursionError"
| "parse_value (Suc n) s =
     (case s of
        [] \<Rightarrow> Inl JSONDecodeError
      | c # cs \<Rightarrow>
          if c = dquote then
            (case parse_string cs of
               None \<Rightarrow> Inl JSONDecodeError
             | Some (str, r) \<Rightarrow> Inr (JStr str, r))
          else if c = CHR ''{'' then
            (case dropWhile json_ws cs of
               [] \<Rightarrow> Inl JSONDecodeError
             | d # r \<Rightarrow>
                 if d = CHR ''}'' then Inr (JObj [], r)
                 else (case parse_members n (d # r) of
                         Inl e \<Rightarrow> Inl e
                       | Inr (ms, r1) \<Rightarrow> Inr (JObj ms, r1)))
          else if c = CHR ''['' then
            (case dropWhile json_ws cs of
               [] \<Rightarrow> Inl JSONDecodeError
             | d # r \<Rightarrow>
                 if d = CHR '']'' then Inr (JArr [], r)
                 else (case parse_elements n (d # r) of
                         Inl e \<Rightarrow> Inl e
                       | Inr (vs, r1) \<Rightarrow> Inr (JArr vs, r1)))
          else if take 4 s = ''null'' then Inr (JNull, drop 4 s)
          else if take 4 s = ''true'' then Inr (JBool True, drop 4 s)
          else if take 5 s = ''false'' then Inr (JBool False, drop 5 s)
          else (case parse_number s of
                  Some r \<Rightarrow> Inr r
                | None \<Rightarrow>
                    if take 3 s = ''NaN'' then Inr (JFloat NaN, drop 3 s)
                    else if take 8 s = ''Infinity'' then Inr (JFloat PosInf, drop 8 s)
                    else if take 9 s = ''-Infinity'' then Inr (JFloat NegInf, drop 9 s)
                    else Inl JSONDecodeError))"
| "parse_elements 0 s = Inl RecursionError"
| "parse_elements (Suc n) s =
     (case parse_value n s of
        Inl e \<Rightarrow> Inl e
      | Inr (v, r) \<Rightarrow>
          (case dropWhile json_ws r of
             [] \<Rightarrow> Inl JSONDecodeError
           | c # r1 \<Rightarrow>
               if c = CHR '']'' then Inr ([v], r1)
               else if c = CHR '','' then
                 (case parse_elements n (dropWhile json_ws r1) of
                    Inl e \<Rightarrow> Inl e
                  | Inr (vs, r2) \<Rightarrow> Inr (v # vs, r2))
               else Inl JSONDecodeError))"
| "parse_members 0 s = Inl RecursionError"
| "parse_members (Suc n) s =
     (case s of
        [] \<Rightarrow> Inl JSONDecodeError
      | q # s1 \<Rightarrow>
          if q \<noteq> dquote then Inl JSONDecodeError
          else
            (case parse_string s1 of
               None \<Rightarrow> Inl JSONDecodeError
             | Some (k, r) \<Rightarrow>
                 (case dropWhile json_ws r of
                    [] \<Rightarrow> Inl JSONDecodeError
                  | c # r1 \<Rightarrow>
                      if c \<noteq> CHR '':'' then Inl JSONDecodeError
                      else
                        (case parse_value n (dropWhile json_ws r1) of
                           Inl e \<Rightarrow> Inl e
                         | Inr (v, r2) \<Rightarrow>
                             (case dropWhile json_ws r2 of
                                [] \<Rightarrow> Inl JSONDecodeError
                              | d # r3 \<Rightarrow>
                                  if d = CHR ''}'' then Inr ([(k, v)], r3)
                                  else if d = CHR '','' then
                                    (case parse_members n (dropWhile json_ws r3) of
                                       Inl e \<Rightarrow> Inl e
                                     | Inr (ms, r4) \<Rightarrow> Inr (add_member k v ms, r4))
                                  else Inl JSONDecodeError)))))"

text \<open>
  \<^verbatim>\<open>json.loads(s)\<close>: one value, with white space before and after it and nothing
  else behind it.
\<close>

definition loads :: "string \<Rightarrow> error + json" where
  "loads s =
     (case parse_value (2 * length s + 2) (dropWhile json_ws s) of
        Inl e \<Rightarrow> Inl e
      | Inr (v, r) \<Rightarrow> if dropWhile json_ws r = [] then Inr v else Inl JSONDecodeError)"

text \<open>
  \<^verbatim>\<open>float(s)\<close> on a string: white space around the number is dropped; the number
  is a decimal with optional sign, fraction and exponent and at least one digit before
  the exponent, where single underscores may separate digits; \<^verbatim>\<open>inf\<close>,
  \<^verbatim>\<open>infinity\<close> and \<^verbatim>\<open>nan\<close> are accepted in any case. Any other text raises
  \<^verbatim>\<open>ValueError\<close>.
\<close>

definition lower :: "char \<Rightarrow> char" where
  "lower c = (let n = (of_char c :: nat) in if 65 \<le> n \<and> n \<le> 90 then char_of (n + 32) else c)"

fun digit_part :: "string \<Rightarrow> string \<times> string" where
  "digit_part [] = ([], [])"
| "digit_part [c] = (if is_digit c then ([c], []) else ([], [c]))"
| "digit_part (c # u # cs) =
     (if \<not> is_digit c then ([], c # u # cs)
      else if u = CHR ''_'' \<and> (case cs of [] \<Rightarrow> False | d # r \<Rightarrow> is_digit d)
      then (case digit_part cs of (ds, rest) \<Rightarrow> (c # ds, rest))
      else (case digit_part (u # cs) of (ds, rest) \<Rightarrow> (c # ds, rest)))"

definition float_exponent :: "string \<Rightarrow> int option" where
  "float_exponent s =
     (case s of
        [] \<Rightarrow> Some 0
      | c # r \<Rightarrow>
          if c = CHR ''e'' \<or> c = CHR ''E''
          then (let neg = (case r of [] \<Rightarrow> False | g # r1 \<Rightarrow> g = CHR ''-'');
                    r2 = (case r of [] \<Rightarrow> r
                          | g # r1 \<Rightarrow> if g = CHR ''-'' \<or> g = CHR ''+'' then r1 else r)
                in case digit_part r2 of
                     (ds, rest) \<Rightarrow>
                       if ds \<noteq> [] \<and> rest = []
                       then Some (if neg then - int (digits_value ds) else int (digits_value ds))
                       else None)
          else None)"

definition float_str :: "string \<Rightarrow> error + pyfloat" where
  "float_str s0 =
     (let s = py_strip s0;
          neg = (case s of [] \<Rightarrow> False | c # r \<Rightarrow> c = CHR ''-'');
          s1 = (case s of [] \<Rightarrow> s
                | c # r \<Rightarrow> if c = CHR ''-'' \<or> c = CHR ''+'' then r else s);
          word = map lower s1
      in if word = ''inf'' \<or> word = ''infinity'' then Inr (if neg then NegInf else PosInf)
         else if word = ''nan'' then Inr NaN
         else
           (case digit_part s1 of
              (ip, r1) \<Rightarrow>
                (case (case r1 of
                         [] \<Rightarrow> ([], r1)
                       | d # r2 \<Rightarrow> if d = CHR ''.'' then digit_part r2 else ([], r1)) of
                   (fp, r3) \<Rightarrow>
                     if ip = [] \<and> fp = [] then Inl ValueError
                     else (case float_exponent r3 of
                             None \<Rightarrow> Inl ValueError
                           | Some e \<Rightarrow> Inr (decimal_value neg ip fp e)))))"

definition python_lib :: pylib where
  "python_lib = \<lparr> json_loads = loads, float_of_str = float_str \<rparr>"

section \<open>Notions used in the statements\<close>

text \<open>
  The position of \<^verbatim>\<open>videos\<close> that an entry selects when it passes the checks of the
  loop: the entry is a dictionary, its \<^verbatim>\<open>index\<close> is an \<^verbatim>\<open>int\<close> (or a \<^verbatim>\<open>bool\<close>) below
  \<^verbatim>\<open>len(videos)\<close>, and \<^verbatim>\<open>videos[index]\<close> exists.
\<close>

definition selected_position :: "video list \<Rightarrow> json \<Rightarrow> nat option" where
  "selected_position videos item =
     (case dict_get item ''index'' JNull of
        Inl e \<Rightarrow> None
      | Inr index \<Rightarrow>
          (case as_int index of
             None \<Rightarrow> None
           | Some i \<Rightarrow>
               (let n = int (length videos)
                in if n \<le> i then None
                   else if 0 \<le> i then Some (nat i)
                   else if 0 \<le> n + i then Some (nat (n + i))
                   else None)))"

text \<open>The positions selected by the entries of a decoded document, in entry order.\<close>

definition selected_positions :: "video list \<Rightarrow> json \<Rightarrow> nat list" where
  "selected_positions videos data =
     (case get_analysis data of
        Inr (JArr items) \<Rightarrow> List.map_filter (selected_position videos) items
      | _ \<Rightarrow> [])"

text \<open>The results of the loop of \<^verbatim>\<open>_format_results\<close> on a decoded document, before sorting.\<close>

definition loop_results :: "pylib \<Rightarrow> video list \<Rightarrow> json \<Rightarrow> scored list" where
  "loop_results L videos data =
     (case get_analysis data of
        Inr (JArr items) \<Rightarrow> collect_results L videos (max_views_of videos) items
      | _ \<Rightarrow> [])"

text \<open>A result carries a video when it has the video's keys with the video's values.\<close>

definition carries :: "video \<Rightarrow> scored \<Rightarrow> bool" where
  "carries v r =
     (title r = title v \<and> like_ratio r = like_ratio v \<and> views r = views v \<and>
      views_formatted r = views_formatted v \<and>
      passthrough r = filter (\<lambda>kv. fst kv \<notin> set computed_keys) (passthrough v))"


definition weighted :: "real \<Rightarrow> real \<Rightarrow> real \<Rightarrow> real" where
  "weighted relevance engagement popularity =
     6 / 10 * relevance + 2 / 10 * engagement + 2 / 10 * popularity"

section \<open>Example inputs\<close>

definition video_a :: video where
  "video_a = \<lparr> title = ''A'', like_ratio = 0, views = 100, views_formatted = ''100'',
               passthrough = [(''url'', JStr ''http://example.com/1'')] \<rparr>"

definition video_b :: video where
  "video_b = \<lparr> title = ''B'', like_ratio = 0, views = 50, views_formatted = ''50'',
               passthrough = [(''url'', JStr ''http://example.com/2'')] \<rparr>"

definition video_c :: video where
  "video_c = \<lparr> title = ''C'', like_ratio = 0, views = 100, views_formatted = ''100'',
               passthrough = [(''gemini_score'', JInt 7)] \<rparr>"

definition fresh :: analyzer where
  "fresh = \<lparr> configured = False, remote_calls = 0, sleeps = [] \<rparr>"

definition entry :: "int \<Rightarrow> int \<Rightarrow> json" where
  "entry i sc = JObj [(''index'', JInt i), (''score'', JInt sc)]"

definition document :: "json list \<Rightarrow> json" where
  "document entries = JObj [(''analysis'', JArr entries)]"

definition quoted :: "string \<Rightarrow> string" where
  "quoted s = [dquote] @ s @ [dquote]"


text \<open>The text \<^verbatim>\<open>{"analysis":[{"index":0,"score":80},{"index":0,"score":80}]}\<close>.\<close>

definition repeated_index_text :: string where
  "repeated_index_text =
     ''{'' @ quoted ''analysis'' @ '':[{'' @ quoted ''index'' @ '':0,'' @ quoted ''score''
       @ '':80},{'' @ quoted ''index'' @ '':0,'' @ quoted ''score'' @ '':80}]}''"





section \<open>Properties of the loop, the sort and the fallback\<close>

lemma score_entry_unselected:
  "selected_position videos item = None \<Longrightarrow> isl (score_entry L videos mv item)"
  by (cases item)
    (auto simp: selected_position_def score_entry_def subscript_def Let_def
      split: sum.splits option.splits if_splits)

lemma score_entry_selected:
  "selected_position videos item = Some p \<Longrightarrow>
     p < length videos \<and> (\<exists>r. score_entry L videos mv item = Inr r \<and> carries (videos ! p) r)"
  by (cases item)
    (auto simp: selected_position_def score_entry_def subscript_def Let_def carries_def
      merge_result_def split: sum.splits option.splits if_splits)

lemma length_collect_results:
  "length (collect_results L videos mv items) =
     length (List.map_filter (selected_position videos) items)"
proof (induction items)
  case Nil
  show ?case by (simp add: List.map_filter_simps)
next
  case (Cons item items)
  show ?case
  proof (cases "selected_position videos item")
    case None
    from score_entry_unselected [OF this, of L mv]
    obtain e where "score_entry L videos mv item = Inl e"
      by (cases "score_entry L videos mv item") auto
    with None Cons show ?thesis by (simp add: List.map_filter_simps)
  next
    case (Some p)
    from score_entry_selected [OF this, of L mv]
    obtain r where "score_entry L videos mv item = Inr r" by blast
    with Some Cons show ?thesis by (simp add: List.map_filter_simps)
  qed
qed

lemma selected_positions_bounded:
  "p \<in> set (List.map_filter (selected_position videos) items) \<Longrightarrow> p < length videos"
proof (induction items)
  case Nil
  then show ?case by (simp add: List.map_filter_simps)
next
  case (Cons item items)
  then show ?case
    using score_entry_selected [of videos item p]
    by (cases "selected_position videos item") (auto simp: List.map_filter_simps)
qed


lemma length_sorted_reverse: "length (sorted_reverse key xs) = length xs"
  by (simp add: sorted_reverse_def)


lemma sorted_reverse_empty: "(sorted_reverse key xs = []) = (xs = [])"
  using length_sorted_reverse [of key xs] by (metis length_0_conv)

lemma sorted_reverse_descending:
  "sorted_wrt (\<lambda>a b. key b \<le> key a) (sorted_reverse key xs)"
proof -
  have "sorted (map (\<lambda>x. - key x) (sort_key (\<lambda>x. - key x) xs))"
    by (rule sorted_sort_key)
  then show ?thesis
    by (simp add: sorted_reverse_def sorted_map)
qed

lemma sorted_reverse_stable:
  "filter (\<lambda>x. key x = c) (sorted_reverse key xs) = filter (\<lambda>x. key x = c) xs"
proof -
  have "filter (\<lambda>y. - key y = - c) (sort_key (\<lambda>x. - key x) xs)
        = filter (\<lambda>y. - key y = - c) xs"
    by (rule sort_key_stable)
  then show ?thesis by (simp add: sorted_reverse_def)
qed

lemma fallback_entry_carries: "carries v (fallback_entry mv v)"
  by (simp add: carries_def fallback_entry_def merge_result_def)

lemma length_create_fallback: "length (create_fallback videos) = length videos"
  by (simp add: create_fallback_def)


lemma get_analysis_contains:
  "get_analysis data = Inr a \<Longrightarrow> contains_analysis data = Inr True"
  by (cases data) (auto split: option.splits)

lemma format_results_cases:
  assumes "format_results L videos data = Inr rs"
  shows "rs = create_fallback videos \<or>
         (loop_results L videos data \<noteq> [] \<and>
          rs = sorted_reverse composite_score (loop_results L videos data))"
  using assms
  by (auto simp: format_results_def loop_results_def Let_def sorted_reverse_empty
      split: sum.splits bool.splits json.splits if_splits)

lemma format_results_ranked:
  assumes "format_results L videos data = Inr rs" and "loop_results L videos data \<noteq> []"
  shows "rs = sorted_reverse composite_score (loop_results L videos data)"
proof -
  from assms(2) obtain items where "get_analysis data = Inr (JArr items)"
    by (auto simp: loop_results_def split: sum.splits json.splits)
  with assms get_analysis_contains [OF this] show ?thesis
    by (simp add: format_results_def loop_results_def Let_def sorted_reverse_empty)
qed




lemma clamp_bounds: "0 \<le> clamp_0_100 f \<and> clamp_0_100 f \<le> 100"
  by (cases f) auto





text \<open>
  C5. \<^verbatim>\<open>_normalize_score\<close> never raises and returns a value between 0 and 100. When
  \<^verbatim>\<open>float(raw)\<close> is a finite number the result is that number clamped to the interval
  (an infinity is clamped to the bound on its side), and when \<^verbatim>\<open>float(raw)\<close> raises the
  result is 50.
\<close>

theorem normalize_score_clamps:
  "0 \<le> normalize_score L raw \<and> normalize_score L raw \<le> 100 \<and>
   (\<forall>x. py_float L raw = Inr (Finite x) \<longrightarrow> normalize_score L raw = max 0 (min 100 x)) \<and>
   (py_float L raw = Inr PosInf \<longrightarrow> normalize_score L raw = 100) \<and>
   (py_float L raw = Inr NegInf \<longrightarrow> normalize_score L raw = 0) \<and>
   (\<forall>e. py_float L raw = Inl e \<longrightarrow> normalize_score L raw = 50)"
proof -
  have bounds: "0 \<le> normalize_score L raw \<and> normalize_score L raw \<le> 100"
    using clamp_bounds by (simp add: normalize_score_def split: sum.splits)
  have finite: "\<forall>x. py_float L raw = Inr (Finite x) \<longrightarrow>
      normalize_score L raw = max 0 (min 100 x)"
    by (auto simp: normalize_score_def)
  have rest: "(py_float L raw = Inr PosInf \<longrightarrow> normalize_score L raw = 100) \<and>
      (py_float L raw = Inr NegInf \<longrightarrow> normalize_score L raw = 0) \<and>
      (\<forall>e. py_float L raw = Inl e \<longrightarrow> normalize_score L raw = 50)"
    by (auto simp: normalize_score_def)
  from bounds finite rest show ?thesis by blast
qed

theorem normalize_score_clamps_witness:
  "py_float python_lib (JInt 150) = Inr (Finite 150) \<and>
   normalize_score python_lib (JInt 150) = 100 \<and>
   py_float python_lib (JStr ''abc'') = Inl ValueError \<and>
   normalize_score python_lib (JStr ''abc'') = 50 \<and>
   py_float python_lib (JFloat (Finite (- 15 / 2))) = Inr (Finite (- 15 / 2)) \<and>
   normalize_score python_lib (JFloat (Finite (- 15 / 2))) = 0 \<and>
   py_float python_lib (JFloat NegInf) = Inr NegInf \<and>
   normalize_score python_lib (JFloat NegInf) = 0 \<and>
   py_float python_lib JNull = Inl TypeError \<and>
   normalize_score python_lib JNull = 50"
proof -
  have a: "py_float python_lib (JInt 150) = Inr (Finite 150)"
    by code_simp
  have b: "py_float python_lib (JStr ''abc'') = Inl ValueError"
    by code_simp
  have c: "py_float python_lib (JFloat (Finite (- 15 / 2))) = Inr (Finite (- 15 / 2))"
    by simp
  have d: "py_float python_lib JNull = Inl TypeError"
    by simp
  have e: "py_float python_lib (JFloat NegInf) = Inr NegInf"
    by simp
  from a normalize_score_clamps [of python_lib "JInt 150"]
  have a': "normalize_score python_lib (JInt 150) = 100" by simp
  from b normalize_score_clamps [of python_lib "JStr ''abc''"]
  have b': "normalize_score python_lib (JStr ''abc'') = 50" by simp
  from c normalize_score_clamps [of python_lib "JFloat (Finite (- 15 / 2))"]
  have c': "normalize_score python_lib (JFloat (Finite (- 15 / 2))) = 0" by simp
  from d normalize_score_clamps [of python_lib JNull]
  have d': "normalize_score python_lib JNull = 50" by simp
  from e normalize_score_clamps [of python_lib "JFloat NegInf"]
  have e': "normalize_score python_lib (JFloat NegInf) = 0" by simp
  from a a' b b' c c' d d' e e' show ?thesis by blast
qed


lemma example_ranking:
  "format_results python_lib [video_a, video_b] (document [entry 1 80, entry 0 80])
     = Inr [merge_result video_a 80 (JStr ''No rationale provided'') 68 0 20,
            merge_result video_b 80 (JStr ''No rationale provided'') 58 0 10]"
  by code_simp




lemma length_loop_results:
  "length (loop_results L videos data) = length (selected_positions videos data)"
  by (simp add: loop_results_def selected_positions_def length_collect_results
      split: sum.splits json.splits)

lemma selected_positions_in_range:
  "p \<in> set (selected_positions videos data) \<Longrightarrow> p < length videos"
  by (auto simp: selected_positions_def selected_positions_bounded
      split: sum.splits json.splits)

lemma distinct_bounded_length:
  assumes "distinct ps" and "\<forall>p\<in>set ps. p < n"
  shows "length ps \<le> (n :: nat)"
proof -
  from assms(2) have "set ps \<subseteq> {..<n}" by auto
  then have "card (set ps) \<le> card {..<n}" by (intro card_mono) auto
  with assms(1) show ?thesis by (simp add: distinct_card)
qed

lemma example_repeated_index:
  "fst (analyze_videos python_lib (Some ''key'') (\<lambda>k. Inr repeated_index_text) [video_a]
          ''learn python'' fresh)
     = Inr (Some [merge_result video_a 80 (JStr ''No rationale provided'') 68 0 20,
                  merge_result video_a 80 (JStr ''No rationale provided'') 68 0 20])"
  by code_simp

lemma example_tie:
  "format_results python_lib [video_a, video_c] (document [entry 1 80, entry 0 80])
     = Inr [merge_result video_c 80 (JStr ''No rationale provided'') 68 0 20,
            merge_result video_a 80 (JStr ''No rationale provided'') 68 0 20]"
  by code_simp

lemma example_tie_loop:
  "loop_results python_lib [video_a, video_c] (document [entry 1 80, entry 0 80])
     = [merge_result video_c 80 (JStr ''No rationale provided'') 68 0 20,
        merge_result video_a 80 (JStr ''No rationale provided'') 68 0 20]"
  by code_simp

lemma example_positions:
  "selected_positions [video_a, video_b] (document [entry 1 80, entry 0 80]) = [1, 0]"
  by code_simp

text \<open>
  The fallback list is in the order of the videos, not of the composite score: with
  50 views before 100 views the scores are 40 and 50.
\<close>

lemma fallback_not_sorted:
  "map composite_score (create_fallback [video_b, video_a]) = [40, 50]"
  by code_simp

text \<open>
  When no entry selects a video, among them when every index is at or above
  \<^verbatim>\<open>len(videos)\<close> or is not an integer, the result is the fallback list.
\<close>

lemma unselected_entries_fall_back:
  assumes "selected_positions videos (document items) = []"
  shows "format_results L videos (document items) = Inr (create_fallback videos)"
proof -
  from assms length_loop_results [of L videos "document items"]
  have "loop_results L videos (document items) = []" by simp
  then show ?thesis
    by (simp add: format_results_def document_def loop_results_def Let_def
        sorted_reverse_empty)
qed

lemma index_at_or_above_length:
  "int (length videos) \<le> i \<Longrightarrow> selected_position videos (JObj [(''index'', JInt i)]) = None"
  by (simp add: selected_position_def Let_def)

text \<open>
  C1, as amended. The scorer returns either the fallback list, of the length of
  \<^verbatim>\<open>videos\<close>, or one result for each entry that selects a video; the list is
  therefore no longer than \<^verbatim>\<open>videos\<close> whenever no two entries select the same video.
\<close>

theorem scorer_length_bound:
  assumes "format_results L videos data = Inr rs"
  shows "(length rs = length videos \<or> length rs = length (selected_positions videos data)) \<and>
         (distinct (selected_positions videos data) \<longrightarrow> length rs \<le> length videos)"
proof -
  from format_results_cases [OF assms]
  have len: "length rs = length videos \<or> length rs = length (selected_positions videos data)"
    by (auto simp: length_create_fallback length_sorted_reverse length_loop_results)
  have "length rs \<le> length videos" if d: "distinct (selected_positions videos data)"
  proof -
    from d selected_positions_in_range [of _ videos data]
    have "length (selected_positions videos data) \<le> length videos"
      by (intro distinct_bounded_length) auto
    with len show ?thesis by auto
  qed
  with len show ?thesis by blast
qed

theorem scorer_length_bound_witness:
  "format_results python_lib [video_a, video_b] (document [entry 1 80, entry 0 80])
     = Inr [merge_result video_a 80 (JStr ''No rationale provided'') 68 0 20,
            merge_result video_b 80 (JStr ''No rationale provided'') 58 0 10] \<and>
   distinct (selected_positions [video_a, video_b] (document [entry 1 80, entry 0 80])) \<and>
   length [merge_result video_a 80 (JStr ''No rationale provided'') 68 0 20,
           merge_result video_b 80 (JStr ''No rationale provided'') 58 0 10]
     \<le> length [video_a, video_b]"
proof -
  have d: "distinct (selected_positions [video_a, video_b] (document [entry 1 80, entry 0 80]))"
    by (simp add: example_positions)
  from scorer_length_bound [OF example_ranking] d example_ranking
  show ?thesis by blast
qed

text \<open>
  C1, as stated, fails: a response that names index 0 twice gives two results for a
  single video.
\<close>

theorem analyze_length_counterexample:
  "fst (analyze_videos python_lib (Some ''key'') (\<lambda>k. Inr repeated_index_text) [video_a]
          ''learn python'' fresh)
     = Inr (Some [merge_result video_a 80 (JStr ''No rationale provided'') 68 0 20,
                  merge_result video_a 80 (JStr ''No rationale provided'') 68 0 20]) \<and>
   \<not> length [merge_result video_a 80 (JStr ''No rationale provided'') 68 0 20,
             merge_result video_a 80 (JStr ''No rationale provided'') 68 0 20]
       \<le> length [video_a]"
  using example_repeated_index by simp

text \<open>
  C2, as amended. When at least one entry selects a video, the list returned by the
  scorer is in descending order of \<^verbatim>\<open>composite_score\<close>, and the results of equal score
  keep the order in which the loop produced them, which is the order of their entries
  in the response.
\<close>

theorem ranked_descending_stable:
  assumes "format_results L videos data = Inr rs" and "loop_results L videos data \<noteq> []"
  shows "sorted_wrt (\<lambda>a b. composite_score b \<le> composite_score a) rs \<and>
         (\<forall>c. filter (\<lambda>r. composite_score r = c) rs
              = filter (\<lambda>r. composite_score r = c) (loop_results L videos data))"
proof -
  from format_results_ranked [OF assms]
  have "rs = sorted_reverse composite_score (loop_results L videos data)" .
  then show ?thesis
    by (simp add: sorted_reverse_descending sorted_reverse_stable)
qed

theorem ranked_descending_stable_witness:
  "loop_results python_lib [video_a, video_c] (document [entry 1 80, entry 0 80]) \<noteq> [] \<and>
   sorted_wrt (\<lambda>a b. composite_score b \<le> composite_score a)
     [merge_result video_c 80 (JStr ''No rationale provided'') 68 0 20,
      merge_result video_a 80 (JStr ''No rationale provided'') 68 0 20] \<and>
   filter (\<lambda>r. composite_score r = 68)
     [merge_result video_c 80 (JStr ''No rationale provided'') 68 0 20,
      merge_result video_a 80 (JStr ''No rationale provided'') 68 0 20]
   = filter (\<lambda>r. composite_score r = 68)
       (loop_results python_lib [video_a, video_c] (document [entry 1 80, entry 0 80]))"
proof -
  have ne: "loop_results python_lib [video_a, video_c] (document [entry 1 80, entry 0 80]) \<noteq> []"
    by (simp add: example_tie_loop)
  from ranked_descending_stable [OF example_tie ne] ne show ?thesis by blast
qed

text \<open>
  C2, as stated, fails: two videos A and C, in this order, with equal composite score
  68 come out as C, A when the response lists the entry of C first.
\<close>

theorem tie_order_counterexample:
  "map title [video_a, video_c] = [''A'', ''C''] \<and>
   format_results python_lib [video_a, video_c] (document [entry 1 80, entry 0 80])
     = Inr [merge_result video_c 80 (JStr ''No rationale provided'') 68 0 20,
            merge_result video_a 80 (JStr ''No rationale provided'') 68 0 20] \<and>
   map title [merge_result video_c 80 (JStr ''No rationale provided'') 68 0 20,
              merge_result video_a 80 (JStr ''No rationale provided'') 68 0 20] = [''C'', ''A'']"
  using example_tie by (simp add: video_a_def video_c_def merge_result_def)

text \<open>
  C4. An entry with a negative index, or with \<^verbatim>\<open>true\<close> as index, is not discarded:
  with two videos, index -1 and index \<^verbatim>\<open>true\<close> both select the second video, and the
  result is a scored list instead of the fallback list.
\<close>

theorem negative_index_is_scored:
  "format_results python_lib [video_a, video_b] (document [entry (- 1) 90])
     = Inr [merge_result video_b 90 (JStr ''No rationale provided'') 64 0 10] \<and>
   format_results python_lib [video_a, video_b] (document [JObj [(''index'', JBool True)]])
     = Inr [merge_result video_b 50 (JStr ''No rationale provided'') 40 0 10] \<and>
   create_fallback [video_a, video_b]
     = [merge_result video_a 50 (JStr ''Could not analyze content'') 50 0 20,
        merge_result video_b 50 (JStr ''Could not analyze content'') 40 0 10]"
  by code_simp

section \<open>Properties of the parsing cascade and of the retry loop\<close>







declare retry_loop.simps [simp del]

text \<open>One attempt of the loop: the remote call followed by \<^verbatim>\<open>_process_response\<close>.\<close>

lemma retry_loop_attempt:
  "retry_loop L remote videos attempt st =
     (if attempt < 3
      then (case (case remote (remote_calls st) of
                    Inl e \<Rightarrow> Inl e
                  | Inr text \<Rightarrow> process_response L videos text) of
              Inr results \<Rightarrow> (Some results, st\<lparr>remote_calls := Suc (remote_calls st)\<rparr>)
            | Inl e \<Rightarrow>
                if attempt < 2
                then retry_loop L remote videos (Suc attempt)
                       (st\<lparr>remote_calls := Suc (remote_calls st),
                           sleeps := 2 ^ attempt # sleeps st\<rparr>)
                else (Some (create_fallback videos), st\<lparr>remote_calls := Suc (remote_calls st)\<rparr>))
      else (None, st))"
  by (subst retry_loop.simps) (simp add: MAX_RETRIES_def Let_def split: sum.splits)


lemma retry_loop_all_fail:
  assumes "isl (remote (remote_calls st))"
    and "isl (remote (Suc (remote_calls st)))"
    and "isl (remote (Suc (Suc (remote_calls st))))"
  shows "retry_loop L remote videos 0 st =
     (Some (create_fallback videos),
      st\<lparr>remote_calls := remote_calls st + 3, sleeps := 2 # 1 # sleeps st\<rparr>)"
proof -
  from assms obtain e0 e1 e2 where e:
    "remote (remote_calls st) = Inl e0"
    "remote (Suc (remote_calls st)) = Inl e1"
    "remote (Suc (Suc (remote_calls st))) = Inl e2"
    by (auto simp: isl_def)
  have "retry_loop L remote videos 0 st =
      retry_loop L remote videos (Suc 0)
        (st\<lparr>remote_calls := Suc (remote_calls st), sleeps := 1 # sleeps st\<rparr>)"
    by (subst retry_loop_attempt) (simp add: e)
  also have "\<dots> =
      retry_loop L remote videos (Suc (Suc 0))
        (st\<lparr>remote_calls := Suc (Suc (remote_calls st)), sleeps := 2 # 1 # sleeps st\<rparr>)"
    by (subst retry_loop_attempt) (simp add: e)
  also have "\<dots> =
      (Some (create_fallback videos),
       st\<lparr>remote_calls := remote_calls st + 3, sleeps := 2 # 1 # sleeps st\<rparr>)"
    by (subst retry_loop_attempt) (simp add: e)
  finally show ?thesis .
qed

lemma configure_available:
  assumes "configured st \<or> (\<exists>k. api_key = Some k \<and> k \<noteq> [])"
  shows "(if \<not> configured st then configure api_key st else Inr st)
           = Inr (st\<lparr>configured := True\<rparr>)"
  using assms by (auto simp: configure_def)


lemma example_scalar_response:
  "process_response python_lib [video_a] ''5'' = Inl TypeError"
  by code_simp

lemma example_scalar_analysis:
  "analyze_videos python_lib (Some ''key'') (\<lambda>k. Inr ''5'') [video_a] ''learn python'' fresh
     = (Inr (Some [merge_result video_a 50 (JStr ''Could not analyze content'') 50 0 20]),
        \<lparr>configured = True, remote_calls = 3, sleeps = [2, 1]\<rparr>)"
  by code_simp

lemma example_fallback:
  "create_fallback [video_b, video_a]
     = [merge_result video_b 50 (JStr ''Could not analyze content'') 40 0 10,
        merge_result video_a 50 (JStr ''Could not analyze content'') 50 0 20]"
  by code_simp

text \<open>
  A decoded document that is neither a dictionary, a list nor a string makes the first
  strategy raise \<^verbatim>\<open>TypeError\<close>, which no strategy catches.
\<close>

lemma scalar_document_raises:
  assumes "json_loads L (py_strip text) = Inr data" and "contains_analysis data = Inl TypeError"
  shows "process_response L videos text = Inl TypeError"
  using assms by (simp add: process_response_def decode_and_format_def format_results_def)

text \<open>
  C3. \<^verbatim>\<open>_process_response\<close> propagates an exception: on the response text \<^verbatim>\<open>5\<close>, a
  document that decodes to a number, it raises \<^verbatim>\<open>TypeError\<close>. \<^verbatim>\<open>analyze_videos\<close> catches
  it and calls the remote model again: with this response at every attempt there are
  three remote calls and two pauses before the fallback list is returned.
\<close>

theorem scalar_response_raises:
  "process_response python_lib [video_a] ''5'' = Inl TypeError \<and>
   analyze_videos python_lib (Some ''key'') (\<lambda>k. Inr ''5'') [video_a] ''learn python'' fresh
     = (Inr (Some [merge_result video_a 50 (JStr ''Could not analyze content'') 50 0 20]),
        \<lparr>configured = True, remote_calls = 3, sleeps = [2, 1]\<rparr>)"
  using example_scalar_response example_scalar_analysis by simp

text \<open>
  C7. For a list of videos that is not empty and an analyzer that is configured or
  can be (the key is set), if the remote call raises at each of the three attempts,
  \<^verbatim>\<open>analyze_videos\<close> returns the fallback list after three remote calls and pauses of 1
  and 2 seconds. The fallback list has one result per video, in the order of the
  videos; each carries its video, has \<^verbatim>\<open>gemini_score\<close> 50, the rationale
  \<^verbatim>\<open>Could not analyze content\<close>, and the composite score of the weighted formula.
\<close>

theorem exhausted_retries_fall_back:
  assumes "videos \<noteq> []"
    and "configured st \<or> (\<exists>k. api_key = Some k \<and> k \<noteq> [])"
    and "isl (remote (remote_calls st))"
    and "isl (remote (remote_calls st + 1))"
    and "isl (remote (remote_calls st + 2))"
  shows "analyze_videos L api_key remote videos query st
           = (Inr (Some (create_fallback videos)),
              st\<lparr>configured := True, remote_calls := remote_calls st + 3,
                 sleeps := 2 # 1 # sleeps st\<rparr>) \<and>
         length (create_fallback videos) = length videos \<and>
         (\<forall>i. i < length videos \<longrightarrow>
            carries (videos ! i) (create_fallback videos ! i) \<and>
            gemini_score (create_fallback videos ! i) = 50 \<and>
            gemini_analysis (create_fallback videos ! i) = JStr ''Could not analyze content'' \<and>
            composite_score (create_fallback videos ! i)
              = round2 (weighted 50 (like_ratio (videos ! i))
                         (normalized_views (max_views_of videos) (views (videos ! i)))))"
proof -
  let ?st1 = "st\<lparr>configured := True\<rparr>"
  from assms(3-5) have
    "retry_loop L remote videos 0 ?st1 =
       (Some (create_fallback videos),
        ?st1\<lparr>remote_calls := remote_calls ?st1 + 3, sleeps := 2 # 1 # sleeps ?st1\<rparr>)"
    by (intro retry_loop_all_fail) simp_all
  with assms(1) configure_available [OF assms(2)]
  have run: "analyze_videos L api_key remote videos query st
           = (Inr (Some (create_fallback videos)),
              st\<lparr>configured := True, remote_calls := remote_calls st + 3,
                 sleeps := 2 # 1 # sleeps st\<rparr>)"
    by (simp add: analyze_videos_def)
  have each: "\<forall>i. i < length videos \<longrightarrow>
            carries (videos ! i) (create_fallback videos ! i) \<and>
            gemini_score (create_fallback videos ! i) = 50 \<and>
            gemini_analysis (create_fallback videos ! i) = JStr ''Could not analyze content'' \<and>
            composite_score (create_fallback videos ! i)
              = round2 (weighted 50 (like_ratio (videos ! i))
                         (normalized_views (max_views_of videos) (views (videos ! i))))"
    by (simp add: create_fallback_def fallback_entry_carries)
      (simp add: fallback_entry_def merge_result_def weighted_def w_gemini_score_def
        w_like_ratio_def w_views_def)
  from run each show ?thesis by (simp add: length_create_fallback)
qed

theorem exhausted_retries_fall_back_witness:
  "analyze_videos python_lib (Some ''key'') (\<lambda>k. Inl RemoteError) [video_b, video_a]
      ''learn python'' fresh
     = (Inr (Some [merge_result video_b 50 (JStr ''Could not analyze content'') 40 0 10,
                   merge_result video_a 50 (JStr ''Could not analyze content'') 50 0 20]),
        \<lparr>configured = True, remote_calls = 3, sleeps = [2, 1]\<rparr>)"
proof -
  have "analyze_videos python_lib (Some ''key'') (\<lambda>k. Inl RemoteError) [video_b, video_a]
      ''learn python'' fresh
     = (Inr (Some (create_fallback [video_b, video_a])),
        fresh\<lparr>configured := True, remote_calls := remote_calls fresh + 3,
              sleeps := 2 # 1 # sleeps fresh\<rparr>)"
    using exhausted_retries_fall_back [of "[video_b, video_a]" fresh "Some ''key''"
        "\<lambda>k. Inl RemoteError" python_lib "''learn python''"]
    by simp
  then show ?thesis by (simp add: example_fallback fresh_def)
qed

text \<open>
  C8, as amended. When the analyzer is configured, or the key is set so that it can be
  configured, \<^verbatim>\<open>analyze_videos\<close> on the empty list returns the empty list, and the
  remote model is not called: the count of remote calls is unchanged and there is no
  pause.
\<close>

theorem empty_input_no_remote_call:
  assumes "configured st \<or> (\<exists>k. api_key = Some k \<and> k \<noteq> [])"
  shows "analyze_videos L api_key remote [] query st = (Inr (Some []), st\<lparr>configured := True\<rparr>) \<and>
         remote_calls (snd (analyze_videos L api_key remote [] query st)) = remote_calls st \<and>
         sleeps (snd (analyze_videos L api_key remote [] query st)) = sleeps st"
  using configure_available [OF assms] by (simp add: analyze_videos_def)

theorem empty_input_no_remote_call_witness:
  "analyze_videos python_lib (Some ''key'') (\<lambda>k. Inl RemoteError) [] ''learn python'' fresh
     = (Inr (Some []), \<lparr>configured = True, remote_calls = 0, sleeps = []\<rparr>)"
  using empty_input_no_remote_call [of fresh "Some ''key''" python_lib "\<lambda>k. Inl RemoteError"
      "''learn python''"]
  by (simp add: fresh_def)

text \<open>
  C8, as stated, fails: \<^verbatim>\<open>configure\<close> runs before the test for the empty list, so an
  analyzer that is not configured and finds no key raises \<^verbatim>\<open>ValueError\<close> on the empty
  list.
\<close>

theorem empty_input_counterexample:
  "analyze_videos python_lib None (\<lambda>k. Inl RemoteError) [] ''learn python'' fresh
     = (Inl ValueError, fresh)"
  by (simp add: analyze_videos_def configure_def fresh_def)




section \<open>The heuristic repair\<close>



















end
